theory Spec2Isabelle
  imports Complex_Main
begin

section \<open>Follower rules (services/validatorWorker/lib/followerRules.js)\<close>

text \<open>
  Balances are bn.js big numbers: signed integers of any size, so \<open>int\<close>.
  A balance map is a plain JavaScript object from account names to big numbers. It
  is modelled as the list of its own entries, in the order \<open>Object.entries\<close>
  yields them; an object holds a key once, which \<open>wf_balances\<close> says.
\<close>

type_synonym bn = int

type_synonym bn_map = "(string \<times> bn) list"

definition wf_balances :: "bn_map \<Rightarrow> bool" where
  "wf_balances m = distinct (map fst m)"

text \<open>
  What the code raises: bn.js asserts that a divisor is not zero, Node's
  \<open>assert.ok\<close> raises on a false argument, and a property read on
  \<open>undefined\<close>, or a call of something that is not a function, is a TypeError.
\<close>

datatype error = BNAssertionFailed | AssertionError | TypeError

text \<open>
  \<open>a.div(b)\<close> of bn.js: the quotient rounded towards zero; a zero divisor
  fails the library's assertion.
\<close>

definition bn_div :: "bn \<Rightarrow> bn \<Rightarrow> error + bn" where
  "bn_div a b =
     (if b = 0 then Inl BNAssertionFailed
      else Inr (sgn a * sgn b * (\<bar>a\<bar> div \<bar>b\<bar>)))"

text \<open>
  The fields of a channel the worker reads. \<open>depositAmount\<close> holds the number
  that \<open>new BN(channel.depositAmount, 10)\<close> denotes; \<open>validators\<close> is the
  list of validator identities of the channel document, \<open>spec_validators\<close> is
  \<open>channel.spec.validators\<close>.
\<close>

record validator =
  validator_id :: string
  url :: string
  fee :: string

record channel =
  channel_id :: string
  depositAmount :: bn
  validators :: "string list"
  spec_validators :: "validator list"

text \<open>The configuration module \<open>cfg\<close> is outside the files modelled here; the
  one value used, \<open>cfg.HEALTH_THRESHOLD_PROMILLES\<close>, is a parameter.\<close>

record cfg =
  HEALTH_THRESHOLD_PROMILLES :: bn

subsection \<open>Reading a key of an object\<close>

text \<open>
  \<open>m[k]\<close> looks for \<open>k\<close> among the object's own keys and then along the
  prototype chain. The prototype of a plain object is \<open>Object.prototype\<close>, so a
  key the object lacks still reads as something when it names one of the members
  of \<open>Object.prototype\<close>: eleven functions and the accessor \<open>__proto__\<close>, which
  yields \<open>Object.prototype\<close> itself. None of them is a big number, all of them
  are truthy, and bn.js, handed one, reads its \<open>length\<close>: the number of
  parameters of a function, and \<open>undefined\<close> for \<open>Object.prototype\<close>.
\<close>

datatype js_value = NoValue | BigNum bn | Inherited "nat option"

definition object_prototype :: "(string \<times> nat option) list" where
  "object_prototype =
     [(''constructor'', Some 1),
      (''__defineGetter__'', Some 2),
      (''__defineSetter__'', Some 2),
      (''hasOwnProperty'', Some 1),
      (''__lookupGetter__'', Some 1),
      (''__lookupSetter__'', Some 1),
      (''isPrototypeOf'', Some 1),
      (''propertyIsEnumerable'', Some 1),
      (''toString'', Some 0),
      (''valueOf'', Some 0),
      (''__proto__'', None),
      (''toLocaleString'', Some 0)]"

definition js_get :: "bn_map \<Rightarrow> string \<Rightarrow> js_value" where
  "js_get m k =
     (case map_of m k of
        Some v \<Rightarrow> BigNum v
      | None \<Rightarrow>
          (case map_of object_prototype k of
             Some len \<Rightarrow> Inherited len
           | None \<Rightarrow> NoValue))"

subsection \<open>bn.js on an operand that is not a big number\<close>

text \<open>
  A big number keeps its magnitude in words of 26 bits, at least one, and its sign
  in \<open>negative\<close>. \<open>BN.min(left, right)\<close> is \<open>left\<close> if \<open>left.cmp(right) < 0\<close> and
  \<open>right\<close> otherwise; \<open>cmp\<close> first compares the \<open>negative\<close> fields, then the
  \<open>length\<close> fields, then the words. \<open>a.add(b)\<close> goes through \<open>sub\<close> or
  \<open>iadd\<close>, which loop over \<open>b.length\<close> words of \<open>b\<close>. A member of
  \<open>Object.prototype\<close> has no \<open>negative\<close>, no \<open>words\<close> and no \<open>clone\<close> (in a
  process where bn.js has not been handed that member before: \<open>add\<close> writes a
  \<open>negative\<close> field onto its operand). So:
  \<^item> \<open>left.cmp(member)\<close> is 1 for \<open>left \<ge> 0\<close>; for \<open>left < 0\<close> it is decided by the
    lengths when they differ, and reads \<open>member.words[i]\<close>, a TypeError, when
    they are equal or the member has no \<open>length\<close>;
  \<^item> \<open>a.add(member)\<close> returns \<open>a\<close> when the member's \<open>length\<close> is 0, reading no
    word of it, and raises a TypeError otherwise;
  \<^item> \<open>undefined\<close> as operand is a TypeError at once.
\<close>

function limbs :: "nat \<Rightarrow> nat" where
  "limbs n = (if n < 2 ^ 26 then 1 else Suc (limbs (n div 2 ^ 26)))"
  by pat_completeness auto
termination
  by (relation "measure id") auto

declare limbs.simps [simp del]

definition bn_length :: "bn \<Rightarrow> nat" where
  "bn_length v = limbs (nat \<bar>v\<bar>)"

definition BN_min :: "bn \<Rightarrow> js_value \<Rightarrow> error + js_value" where
  "BN_min left right =
     (case right of
        NoValue \<Rightarrow> Inl TypeError
      | BigNum w \<Rightarrow> Inr (BigNum (if left < w then left else w))
      | Inherited len \<Rightarrow>
          if 0 \<le> left then Inr (Inherited len)
          else (case len of
                  None \<Rightarrow> Inl TypeError
                | Some n \<Rightarrow>
                    if bn_length left > n then Inr (BigNum left)
                    else if bn_length left < n then Inr (Inherited len)
                    else Inl TypeError))"

definition BN_add :: "bn \<Rightarrow> js_value \<Rightarrow> error + bn" where
  "BN_add a b =
     (case b of
        NoValue \<Rightarrow> Inl TypeError
      | BigNum w \<Rightarrow> Inr (a + w)
      | Inherited len \<Rightarrow> if len = Some 0 then Inr a else Inl TypeError)"

subsection \<open>The rules\<close>

text \<open>\<open>bns.reduce((a, b) => a.add(b), new BN(0))\<close>, on a list of big numbers, and
  on a list that may hold something else, where the first \<open>add\<close> that raises ends
  the reduction.\<close>

definition sumBNs :: "bn list \<Rightarrow> bn" where
  "sumBNs bns = foldl (\<lambda>a b. a + b) 0 bns"

fun reduce_add :: "bn \<Rightarrow> js_value list \<Rightarrow> error + bn" where
  "reduce_add a [] = Inr a"
| "reduce_add a (b # rest) =
     (case BN_add a b of Inl e \<Rightarrow> Inl e | Inr a' \<Rightarrow> reduce_add a' rest)"

definition sumBNs_any :: "js_value list \<Rightarrow> error + bn" where
  "sumBNs_any bns = reduce_add 0 bns"

text \<open>\<open>sumBNs(Object.values(all))\<close>: the values of the own keys, all big numbers.\<close>

definition sumMap :: "bn_map \<Rightarrow> bn" where
  "sumMap all = sumBNs (map snd all)"

text \<open>\<open>approved[k] || new BN(0)\<close>: a big number object and a member of
  \<open>Object.prototype\<close> are truthy, so the default is taken exactly when the read
  gives \<open>undefined\<close>.\<close>

definition or_zero :: "js_value \<Rightarrow> js_value" where
  "or_zero x = (case x of NoValue \<Rightarrow> BigNum 0 | _ \<Rightarrow> x)"

text \<open>\<open>sumBNs(Object.keys(our).map(k => BN.min(our[k], approved[k] || new BN(0))))\<close>:
  each own key \<open>k\<close> of \<open>our\<close> is visited with its value \<open>our[k]\<close>, in order; the
  minima are all taken before the sum, and a call that raises ends the map.\<close>

fun approved_mins :: "bn_map \<Rightarrow> bn_map \<Rightarrow> error + js_value list" where
  "approved_mins approved [] = Inr []"
| "approved_mins approved ((k, v) # rest) =
     (case BN_min v (or_zero (js_get approved k)) of
        Inl e \<Rightarrow> Inl e
      | Inr x \<Rightarrow>
          (case approved_mins approved rest of
             Inl e \<Rightarrow> Inl e
           | Inr xs \<Rightarrow> Inr (x # xs)))"

definition sumMins :: "bn_map \<Rightarrow> bn_map \<Rightarrow> error + bn" where
  "sumMins our approved =
     (case approved_mins approved our of
        Inl e \<Rightarrow> Inl e
      | Inr mins \<Rightarrow> sumBNs_any mins)"

text \<open>
  The callback of \<open>Object.entries(prev).every\<close>: \<open>next[acc]\<close> read as above;
  \<open>undefined\<close> is falsy and ends \<open>every\<close> with false; a member of
  \<open>Object.prototype\<close> is truthy and has no \<open>gte\<close>, so calling it raises a
  TypeError; a big number is compared. \<open>every\<close> stops at the first entry that
  gives false.
\<close>

fun every_next_gte :: "bn_map \<Rightarrow> bn_map \<Rightarrow> error + bool" where
  "every_next_gte next [] = Inr True"
| "every_next_gte next ((acc, bal) # rest) =
     (case js_get next acc of
        NoValue \<Rightarrow> Inr False
      | Inherited len \<Rightarrow> Inl TypeError
      | BigNum nextBal \<Rightarrow> if nextBal \<ge> bal then every_next_gte next rest else Inr False)"

text \<open>The four conjuncts are evaluated from left to right, and the first false one
  decides.\<close>

definition isValidTransition :: "channel \<Rightarrow> bn_map \<Rightarrow> bn_map \<Rightarrow> error + bool" where
  "isValidTransition channel prev next =
     (let sumPrev = sumMap prev;
          sumNext = sumMap next;
          deposit = depositAmount channel
      in if \<not> sumNext \<ge> sumPrev then Inr False
         else if \<not> sumNext \<le> deposit then Inr False
         else (case every_next_gte next prev of
                 Inl e \<Rightarrow> Inl e
               | Inr covered \<Rightarrow>
                   if covered then Inr (list_all (\<lambda>(acc, bal). \<not> bal < 0) next)
                   else Inr False))"

definition isHealthy :: "cfg \<Rightarrow> bn_map \<Rightarrow> bn_map \<Rightarrow> error + bool" where
  "isHealthy c our approved =
     (let sumOur = sumMap our
      in case sumMins our approved of
           Inl e \<Rightarrow> Inl e
         | Inr sumApprovedMins \<Rightarrow>
             if sumApprovedMins \<ge> sumOur then Inr True
             else (case bn_div (sumApprovedMins * 1000) sumOur of
                     Inl e \<Rightarrow> Inl e
                   | Inr q \<Rightarrow>
                       if q < HEALTH_THRESHOLD_PROMILLES c then Inr False else Inr True))"

section \<open>The follower's tick (services/validatorWorker/follower.js)\<close>

subsection \<open>Messages, the message store, and what the tick calls\<close>

text \<open>
  On the wire and in the store a balance map holds decimal strings; \<open>toBNMap\<close> and
  \<open>toBNStringMap\<close> (module \<open>./lib\<close>, outside the files modelled here) convert
  between the two forms. A field that holds a map is one of three JavaScript values.
\<close>

type_synonym string_map = "(string \<times> string) list"

datatype js_map = Undefined | StringMap string_map | BNMap bn_map

text \<open>
  A validator message is a JavaScript object; a field it lacks reads as
  \<open>undefined\<close>, here \<open>None\<close> or \<open>Undefined\<close>. \<open>created\<close> is the number of
  milliseconds \<open>Date.now()\<close> gave its sender.
\<close>

record message =
  msg_type :: string
  stateRoot :: "string option"
  signature :: "string option"
  balances :: js_map
  balancesAfterFees :: js_map
  msg_isHealthy :: "bool option"
  created :: "nat option"

text \<open>
  A document of the collection \<open>validatorMessages\<close>. The collection is the list of
  its documents in the order they were inserted. \<open>doc_id\<close> is the document's
  \<open>_id\<close>, a MongoDB ObjectId, read as the number its twelve bytes spell: four bytes
  of seconds since the epoch, five bytes that are the same for every document a
  process creates, and a three-byte counter that the driver increments and wraps.
\<close>

record doc =
  doc_id :: nat
  channelId :: string
  doc_from :: string
  msg :: message

type_synonym store = "doc list"

definition objectId :: "nat \<Rightarrow> nat \<Rightarrow> nat \<Rightarrow> nat" where
  "objectId seconds process_random counter =
     (seconds * 2 ^ 40 + process_random mod 2 ^ 40) * 2 ^ 24 + counter mod 2 ^ 24"

text \<open>The signing adapter: \<open>whoami()\<close>, \<open>verify(identity, stateRoot, signature)\<close>
  and \<open>sign(bytes)\<close>.\<close>

record adapter =
  whoami :: string
  verify :: "string \<Rightarrow> string option \<Rightarrow> string option \<Rightarrow> bool"
  sign :: "nat list \<Rightarrow> string"

text \<open>What \<open>producer.tick\<close> resolves to, as far as the follower reads it: the
  channel, our own balances, and whether \<open>newStateTree\<close> is set.\<close>

record producer_result =
  res_channel :: channel
  res_balances :: bn_map
  newStateTree :: bool

text \<open>
  The functions the follower imports from modules outside the files modelled here
  (\<open>./lib\<close>, \<open>./lib/fees\<close>, \<open>./producer\<close>) and the clock are parameters.
\<close>

record lib =
  toBNMap :: "js_map \<Rightarrow> bn_map"
  toBNStringMap :: "js_map \<Rightarrow> string_map"
  toStringBN :: "bn_map \<Rightarrow> string"
  getBalancesAfterFeesTree :: "bn_map \<Rightarrow> channel \<Rightarrow> bn_map"
  isValidRootHash :: "string option \<Rightarrow> channel \<Rightarrow> js_map \<Rightarrow> adapter \<Rightarrow> bool"
  producer_tick :: "channel \<Rightarrow> bool \<Rightarrow> producer_result"
  date_now :: nat

text \<open>
  What a tick does to the world outside, in the order it does it: a line on the
  error console, a call of \<open>onError\<close>, of \<open>persistAndPropagate\<close>, of
  \<open>producer.tick\<close> and of \<open>heartbeatIfNothingNew\<close>, each with its arguments (the
  adapter, the same in every call, is left out).
\<close>

datatype tick_result = NothingNew bool | PersistAndPropagateResult | OnErrorResult

record on_error_args =
  reason :: string
  err_newMsg :: message
  prevBalancesString :: string
  newBalancesString :: string

datatype effect =
    ConsoleError string
  | OnError channel on_error_args
  | PersistAndPropagate "validator list" channel message
  | ProducerTick channel bool
  | HeartbeatIfNothingNew channel tick_result

text \<open>\<open>Buffer.from(s, 'hex')\<close>: two hexadecimal digits give a byte; decoding stops
  at the first pair that is not two hexadecimal digits, and a last single character
  is dropped.\<close>

definition hex_val :: "char \<Rightarrow> nat option" where
  "hex_val ch =
     (let n = (of_char ch :: nat)
      in if 48 \<le> n \<and> n \<le> 57 then Some (n - 48)
         else if 97 \<le> n \<and> n \<le> 102 then Some (n - 87)
         else if 65 \<le> n \<and> n \<le> 70 then Some (n - 55)
         else None)"

fun buffer_from_hex :: "string \<Rightarrow> nat list" where
  "buffer_from_hex (a # b # rest) =
     (case (hex_val a, hex_val b) of
        (Some x, Some y) \<Rightarrow> (16 * x + y) # buffer_from_hex rest
      | _ \<Rightarrow> [])"
| "buffer_from_hex _ = []"

text \<open>lodash's \<open>isEqual\<close> on two objects of strings: the same keys with the same
  values, in whatever order.\<close>

definition isEqual :: "string_map \<Rightarrow> string_map \<Rightarrow> bool" where
  "isEqual a b \<longleftrightarrow> set a = set b"

subsection \<open>getLatestMsg and augmentWithBalances\<close>

text \<open>
  \<open>find({channelId, from, 'msg.type': type}).sort({_id: -1}).limit(1)\<close>: of the
  matching documents the one with the greatest \<open>_id\<close>; its \<open>msg\<close>, or \<open>null\<close>
  when nothing matches. \<open>from\<close> is \<open>None\<close> when the caller passes \<open>undefined\<close>,
  which no stored sender equals.
\<close>

definition matching :: "store \<Rightarrow> string \<Rightarrow> string option \<Rightarrow> string \<Rightarrow> doc list" where
  "matching st cid sender type =
     filter (\<lambda>d. channelId d = cid \<and> Some (doc_from d) = sender \<and> msg_type (msg d) = type) st"

definition getLatestMsg :: "store \<Rightarrow> string \<Rightarrow> string option \<Rightarrow> string \<Rightarrow> message option" where
  "getLatestMsg st cid sender type =
     (case rev (sort_key doc_id (matching st cid sender type)) of
        [] \<Rightarrow> None
      | d # _ \<Rightarrow> Some (msg d))"

text \<open>
  The other version of the file sorts by \<open>{'msg.created': -1}\<close>. A document
  without the field sorts as \<open>null\<close>, below every number. MongoDB leaves the
  order of documents with equal keys open; here the one inserted later comes first.
\<close>

definition created_rank :: "doc \<Rightarrow> nat" where
  "created_rank d = (case created (msg d) of None \<Rightarrow> 0 | Some t \<Rightarrow> Suc t)"

definition getLatestMsg_created :: "store \<Rightarrow> string \<Rightarrow> string option \<Rightarrow> string \<Rightarrow> message option" where
  "getLatestMsg_created st cid sender type =
     (case rev (sort_key created_rank (matching st cid sender type)) of
        [] \<Rightarrow> None
      | d # _ \<Rightarrow> Some (msg d))"

text \<open>
  \<open>findOne({'msg.type': 'NewState', 'msg.stateRoot': approveMsg.stateRoot})\<close> yields
  the first such document; the assertion wants it to exist and to hold balances.
\<close>

definition truthy_map :: "js_map \<Rightarrow> bool" where
  "truthy_map m = (case m of Undefined \<Rightarrow> False | _ \<Rightarrow> True)"

definition augmentWithBalances :: "store \<Rightarrow> message option \<Rightarrow> error + message option" where
  "augmentWithBalances st approveMsg =
     (case approveMsg of
        None \<Rightarrow> Inr None
      | Some a \<Rightarrow>
          (case find (\<lambda>d. msg_type (msg d) = ''NewState'' \<and> stateRoot (msg d) = stateRoot a) st of
             None \<Rightarrow> Inl AssertionError
           | Some d \<Rightarrow>
               if truthy_map (balances (msg d))
               then Inr (Some (a\<lparr>balances := balances (msg d)\<rparr>))
               else Inl AssertionError))"

subsection \<open>onNewState\<close>

definition isValidValidatorFees :: "lib \<Rightarrow> channel \<Rightarrow> bn_map \<Rightarrow> js_map \<Rightarrow> bool" where
  "isValidValidatorFees l channel bals afterFees =
     (let calcBalancesAfterFees = toBNStringMap l (BNMap (getBalancesAfterFeesTree l bals channel))
      in isEqual calcBalancesAfterFees (toBNStringMap l afterFees))"

definition approveState :: "string \<Rightarrow> bool \<Rightarrow> string \<Rightarrow> nat option \<Rightarrow> message" where
  "approveState sr healthy sig t =
     \<lparr>msg_type = ''ApproveState'', stateRoot = Some sr, signature = Some sig,
      balances = Undefined, balancesAfterFees = Undefined,
      msg_isHealthy = Some healthy, created = t\<rparr>"

text \<open>
  follower.js: a failed check writes a line to the error console and resolves to
  \<open>{ nothingNew: true }\<close>. What isValidTransition or isHealthy raises rejects the
  call. \<open>leader.id\<close> is read when \<open>adapter.verify\<close> is called, and
  \<open>Buffer.from\<close> wants a string; both raise a TypeError on \<open>undefined\<close>.
\<close>

definition log_prefix :: "channel \<Rightarrow> string" where
  "log_prefix channel = ''validatatorWorker: '' @ channel_id channel @ '': ''"

definition onNewState ::
  "cfg \<Rightarrow> lib \<Rightarrow> adapter \<Rightarrow> producer_result \<Rightarrow> message \<Rightarrow> message option
     \<Rightarrow> effect list \<times> (error + tick_result)" where
  "onNewState c l adapter res newMsg approveMsg =
     (let channel = res_channel res;
          prevBalances = toBNMap l (case approveMsg of Some a \<Rightarrow> balances a | None \<Rightarrow> StringMap []);
          newBalances = toBNMap l (balances newMsg);
          afterFees = balancesAfterFees newMsg
      in case isValidTransition channel prevBalances newBalances of
           Inl e \<Rightarrow> ([], Inl e)
         | Inr valid \<Rightarrow>
         if \<not> valid then
           ([ConsoleError (log_prefix channel @ ''invalid transition requested in NewState'')],
            Inr (NothingNew True))
         else if \<not> isValidValidatorFees l channel newBalances afterFees then
           ([ConsoleError (log_prefix channel @ ''invalid validator fees requested in NewState'')],
            Inr (NothingNew True))
         else
           (let otherValidators =
                  filter (\<lambda>v. validator_id v \<noteq> whoami adapter) (spec_validators channel)
            in if \<not> isValidRootHash l (stateRoot newMsg) channel afterFees adapter then
                 ([ConsoleError (log_prefix channel @ ''invalid state root hash '')],
                  Inr (NothingNew True))
               else
                 (case spec_validators channel of
                    [] \<Rightarrow> ([], Inl TypeError)
                  | leader # _ \<Rightarrow>
                      if \<not> verify adapter (validator_id leader) (stateRoot newMsg) (signature newMsg) then
                        ([ConsoleError (log_prefix channel @ ''invalid signature NewState'')],
                         Inr (NothingNew True))
                      else
                        (case stateRoot newMsg of
                           None \<Rightarrow> ([], Inl TypeError)
                         | Some sr \<Rightarrow>
                             (let sig = sign adapter (buffer_from_hex sr)
                              in case isHealthy c (res_balances res) newBalances of
                                   Inl e \<Rightarrow> ([], Inl e)
                                 | Inr healthy \<Rightarrow>
                                     ([PersistAndPropagate otherValidators channel
                                         (approveState sr healthy sig None)],
                                      Inr PersistAndPropagateResult))))))"

text \<open>
  The other version of the file (src/unnamed/part_000): a failed check returns
  \<open>onError(channel, adapter, { reason, newMsg, prevBalancesString, newBalancesString })\<close>,
  and the ApproveState carries \<open>created: Date.now()\<close>. \<open>onError\<close> is imported from
  \<open>./lib\<close>; the call is recorded.
\<close>

definition on_error :: "lib \<Rightarrow> channel \<Rightarrow> string \<Rightarrow> message \<Rightarrow> bn_map \<Rightarrow> bn_map
     \<Rightarrow> effect list \<times> (error + tick_result)" where
  "on_error l channel r newMsg prevBalances newBalances =
     ([OnError channel
         \<lparr>reason = r, err_newMsg = newMsg,
          prevBalancesString = toStringBN l prevBalances,
          newBalancesString = toStringBN l newBalances\<rparr>],
      Inr OnErrorResult)"

definition onNewState_onError ::
  "cfg \<Rightarrow> lib \<Rightarrow> adapter \<Rightarrow> producer_result \<Rightarrow> message \<Rightarrow> message option
     \<Rightarrow> effect list \<times> (error + tick_result)" where
  "onNewState_onError c l adapter res newMsg approveMsg =
     (let channel = res_channel res;
          prevBalances = toBNMap l (case approveMsg of Some a \<Rightarrow> balances a | None \<Rightarrow> StringMap []);
          newBalances = toBNMap l (balances newMsg);
          afterFees = balancesAfterFees newMsg
      in case isValidTransition channel prevBalances newBalances of
           Inl e \<Rightarrow> ([], Inl e)
         | Inr valid \<Rightarrow>
         if \<not> valid then
           on_error l channel ''InvalidTransition'' newMsg prevBalances newBalances
         else if \<not> isValidValidatorFees l channel newBalances afterFees then
           on_error l channel ''InvalidValidatorFees'' newMsg prevBalances newBalances
         else
           (let otherValidators =
                  filter (\<lambda>v. validator_id v \<noteq> whoami adapter) (spec_validators channel)
            in if \<not> isValidRootHash l (stateRoot newMsg) channel afterFees adapter then
                 on_error l channel ''InvalidRootHash'' newMsg prevBalances newBalances
               else
                 (case spec_validators channel of
                    [] \<Rightarrow> ([], Inl TypeError)
                  | leader # _ \<Rightarrow>
                      if \<not> verify adapter (validator_id leader) (stateRoot newMsg) (signature newMsg) then
                        on_error l channel ''InvalidSignature'' newMsg prevBalances newBalances
                      else
                        (case stateRoot newMsg of
                           None \<Rightarrow> ([], Inl TypeError)
                         | Some sr \<Rightarrow>
                             (let sig = sign adapter (buffer_from_hex sr)
                              in case isHealthy c (res_balances res) newBalances of
                                   Inl e \<Rightarrow> ([], Inl e)
                                 | Inr healthy \<Rightarrow>
                                     ([PersistAndPropagate otherValidators channel
                                         (approveState sr healthy sig (Some (date_now l)))],
                                      Inr PersistAndPropagateResult))))))"

subsection \<open>tick\<close>

text \<open>
  Both queries are awaited together; a failed assertion of \<open>augmentWithBalances\<close>
  rejects the tick before anything else runs. \<open>latestIsApproved\<close> is
  \<open>newMsg && approveMsg && newMsg.stateRoot == approveMsg.stateRoot\<close>. An error
  raised in \<open>onNewState\<close> skips the heartbeat.
\<close>

definition latestIsApproved :: "message option \<Rightarrow> message option \<Rightarrow> bool" where
  "latestIsApproved newMsg approveMsg =
     (case newMsg of
        None \<Rightarrow> False
      | Some n \<Rightarrow> (case approveMsg of None \<Rightarrow> False | Some a \<Rightarrow> stateRoot n = stateRoot a))"

definition leader_of :: "channel \<Rightarrow> string option" where
  "leader_of channel = (case validators channel of [] \<Rightarrow> None | v # _ \<Rightarrow> Some v)"

definition then_heartbeat ::
  "channel \<Rightarrow> effect list \<times> (error + tick_result) \<Rightarrow> effect list \<times> error option" where
  "then_heartbeat channel out =
     (case snd out of
        Inl e \<Rightarrow> (fst out, Some e)
      | Inr r \<Rightarrow> (fst out @ [HeartbeatIfNothingNew channel r], None))"

definition tick_with ::
  "(store \<Rightarrow> string \<Rightarrow> string option \<Rightarrow> string \<Rightarrow> message option) \<Rightarrow>
   (producer_result \<Rightarrow> message \<Rightarrow> message option \<Rightarrow> effect list \<times> (error + tick_result)) \<Rightarrow>
   lib \<Rightarrow> adapter \<Rightarrow> store \<Rightarrow> channel \<Rightarrow> effect list \<times> error option" where
  "tick_with latest on_new l adapter st channel =
     (let newMsg = latest st (channel_id channel) (leader_of channel) ''NewState''
      in case augmentWithBalances st
                (latest st (channel_id channel) (Some (whoami adapter)) ''ApproveState'') of
           Inl e \<Rightarrow> ([], Some e)
         | Inr approveMsg \<Rightarrow>
             (case newMsg of
                None \<Rightarrow>
                  then_heartbeat channel
                    ([ProducerTick channel False],
                     Inr (NothingNew (\<not> newStateTree (producer_tick l channel False))))
              | Some n \<Rightarrow>
                  if latestIsApproved newMsg approveMsg then
                    then_heartbeat channel
                      ([ProducerTick channel False],
                       Inr (NothingNew (\<not> newStateTree (producer_tick l channel False))))
                  else
                    (let out = on_new (producer_tick l channel True) n approveMsg
                     in then_heartbeat channel (ProducerTick channel True # fst out, snd out))))"

definition tick :: "cfg \<Rightarrow> lib \<Rightarrow> adapter \<Rightarrow> store \<Rightarrow> channel \<Rightarrow> effect list \<times> error option" where
  "tick c l adapter st channel =
     tick_with getLatestMsg (onNewState c l adapter) l adapter st channel"

definition tick_onError :: "cfg \<Rightarrow> lib \<Rightarrow> adapter \<Rightarrow> store \<Rightarrow> channel \<Rightarrow> effect list \<times> error option" where
  "tick_onError c l adapter st channel =
     tick_with getLatestMsg_created (onNewState_onError c l adapter) l adapter st channel"

section \<open>The createChannel schema (routes/schemas.js)\<close>

text \<open>
  The request body is a JSON value. The schema is written with the Joi library. The
  rules of the library that the schema relies on and that are not decided by the
  shape of a JSON value alone are parameters: which values pass \<open>Joi.number()\<close>
  and \<open>Joi.number().integer()\<close> (Joi converts strings), which strings pass
  \<open>.uri({ scheme })\<close>, and which values \<open>Joi.object()\<close> and \<open>Joi.array()\<close> take
  for an object and an array (Joi parses a JSON string).
\<close>

datatype json =
    JNull
  | JBool bool
  | JNum rat
  | JStr string
  | JArr "json list"
  | JObj "(string \<times> json) list"

record joi_rules =
  number_ok :: "json \<Rightarrow> bool"
  integer_ok :: "json \<Rightarrow> bool"
  uri_ok :: "string list \<Rightarrow> string \<Rightarrow> bool"
  as_object :: "json \<Rightarrow> (string \<times> json) list option"
  as_array :: "json \<Rightarrow> json list option"

text \<open>\<open>Joi.string()\<close>: a string, and not the empty one. A key is \<open>undefined\<close>
  when the object lacks it; \<open>.required()\<close> refuses \<open>undefined\<close>, and a key
  without it may be absent.\<close>

definition joi_string :: "json \<Rightarrow> bool" where
  "joi_string j = (case j of JStr s \<Rightarrow> s \<noteq> [] | _ \<Rightarrow> False)"

definition required :: "(json \<Rightarrow> bool) \<Rightarrow> json option \<Rightarrow> bool" where
  "required rule v = (case v of None \<Rightarrow> False | Some j \<Rightarrow> rule j)"

definition optional :: "(json \<Rightarrow> bool) \<Rightarrow> json option \<Rightarrow> bool" where
  "optional rule v = (case v of None \<Rightarrow> True | Some j \<Rightarrow> rule j)"

text \<open>\<open>const numericString = Joi.string().regex(/^\d+$/)\<close>: one or more of the
  digits 0 to 9 and nothing else.\<close>

definition is_digit :: "char \<Rightarrow> bool" where
  "is_digit ch = (48 \<le> (of_char ch :: nat) \<and> (of_char ch :: nat) \<le> 57)"

definition numericString :: "json \<Rightarrow> bool" where
  "numericString j = (case j of JStr s \<Rightarrow> s \<noteq> [] \<and> list_all is_digit s | _ \<Rightarrow> False)"

text \<open>An object against the keys of a schema: every key of the schema passes its
  rule on the value under it, and the object has no key the schema does not name.\<close>

definition joi_keys :: "(string \<times> (json option \<Rightarrow> bool)) list \<Rightarrow> (string \<times> json) list \<Rightarrow> bool" where
  "joi_keys schema obj =
     (list_all (\<lambda>(k, rule). rule (map_of obj k)) schema \<and>
      list_all (\<lambda>(k, v). k \<in> set (map fst schema)) obj)"

text \<open>\<open>Joi.object()\<close> with no keys takes any object; \<open>Joi.array().items(rule)\<close>
  takes an array whose items all pass.\<close>

definition joi_object :: "joi_rules \<Rightarrow> json \<Rightarrow> bool" where
  "joi_object r j = (as_object r j \<noteq> None)"

definition joi_object_keys ::
  "joi_rules \<Rightarrow> (string \<times> (json option \<Rightarrow> bool)) list \<Rightarrow> json \<Rightarrow> bool" where
  "joi_object_keys r schema j =
     (case as_object r j of None \<Rightarrow> False | Some obj \<Rightarrow> joi_keys schema obj)"

definition joi_array_items :: "joi_rules \<Rightarrow> (json \<Rightarrow> bool) \<Rightarrow> json \<Rightarrow> bool" where
  "joi_array_items r rule j =
     (case as_array r j of None \<Rightarrow> False | Some items \<Rightarrow> list_all rule items)"

definition joi_array_length :: "joi_rules \<Rightarrow> nat \<Rightarrow> json \<Rightarrow> bool" where
  "joi_array_length r n j =
     (case as_array r j of None \<Rightarrow> False | Some items \<Rightarrow> length items = n)"

definition joi_number :: "joi_rules \<Rightarrow> json \<Rightarrow> bool" where
  "joi_number r j = number_ok r j"

definition joi_integer :: "joi_rules \<Rightarrow> json \<Rightarrow> bool" where
  "joi_integer r j = (number_ok r j \<and> integer_ok r j)"

definition joi_uri :: "joi_rules \<Rightarrow> string list \<Rightarrow> json \<Rightarrow> bool" where
  "joi_uri r schemes j = (case j of JStr s \<Rightarrow> s \<noteq> [] \<and> uri_ok r schemes s | _ \<Rightarrow> False)"

text \<open>The schema of one validator, of \<open>spec\<close>, and of the channel, key by key as
  in the source.\<close>

definition validator_schema :: "joi_rules \<Rightarrow> (string \<times> (json option \<Rightarrow> bool)) list" where
  "validator_schema r =
     [(''id'', required joi_string),
      (''url'', required (joi_uri r [''http'', ''https''])),
      (''fee'', required numericString)]"

definition spec_schema :: "joi_rules \<Rightarrow> (string \<times> (json option \<Rightarrow> bool)) list" where
  "spec_schema r =
     [(''adUnits'', optional (joi_array_items r (joi_object r))),
      (''targeting'', optional (joi_array_items r (joi_object r))),
      (''validators'',
         required (\<lambda>j. joi_array_items r (joi_object_keys r (validator_schema r)) j \<and>
                        joi_array_length r 2 j)),
      (''withdrawPeriodStart'', required (joi_number r)),
      (''minPerImpression'', optional numericString),
      (''maxPerImpression'', optional numericString),
      (''eventSubmission'',
         optional (joi_object_keys r
           [(''allow'', optional (joi_array_items r (joi_object r)))])),
      (''nonce'', optional joi_string),
      (''created'', optional (joi_number r)),
      (''activeFrom'', optional (joi_number r))]"

definition createChannel_schema :: "joi_rules \<Rightarrow> (string \<times> (json option \<Rightarrow> bool)) list" where
  "createChannel_schema r =
     [(''id'', required joi_string),
      (''depositAsset'', required joi_string),
      (''depositAmount'', required numericString),
      (''validUntil'', required (joi_integer r)),
      (''creator'', required joi_string),
      (''spec'', required (joi_object_keys r (spec_schema r)))]"

definition createChannel :: "joi_rules \<Rightarrow> json \<Rightarrow> bool" where
  "createChannel r body = joi_object_keys r (createChannel_schema r) body"

subsection \<open>The fee constraint of the specification\<close>

text \<open>``The sum of validator fees must not exceed \<open>depositAmount\<close>'', on the numbers
  the decimal strings of a channel denote.\<close>

definition nat_of_decimal :: "string \<Rightarrow> nat" where
  "nat_of_decimal s = foldl (\<lambda>a ch. 10 * a + (of_char ch - 48)) 0 s"

definition field :: "string \<Rightarrow> json \<Rightarrow> json option" where
  "field k j = (case j of JObj obj \<Rightarrow> map_of obj k | _ \<Rightarrow> None)"

definition decimal_field :: "string \<Rightarrow> json \<Rightarrow> nat" where
  "decimal_field k j = (case field k j of Some (JStr s) \<Rightarrow> nat_of_decimal s | _ \<Rightarrow> 0)"

definition declared_fees :: "json \<Rightarrow> nat list" where
  "declared_fees body =
     (case field ''spec'' body of
        Some sp \<Rightarrow>
          (case field ''validators'' sp of
             Some (JArr vs) \<Rightarrow> map (decimal_field ''fee'') vs
           | _ \<Rightarrow> [])
      | None \<Rightarrow> [])"

definition fees_within_deposit :: "json \<Rightarrow> bool" where
  "fees_within_deposit body \<longleftrightarrow>
     sum_list (declared_fees body) \<le> decimal_field ''depositAmount'' body"

subsection \<open>The rules as the specification words them\<close>

text \<open>
  The specification speaks of maps: the sum of a map, the keys of a map, the value
  under a key. These are the same notions on the finite map an object denotes.
\<close>

definition map_total :: "(string \<rightharpoonup> bn) \<Rightarrow> bn" where
  "map_total M = (\<Sum>k \<in> dom M. the (M k))"

definition value_or_zero :: "(string \<rightharpoonup> bn) \<Rightarrow> string \<Rightarrow> bn" where
  "value_or_zero M k = (case M k of None \<Rightarrow> 0 | Some v \<Rightarrow> v)"

definition mins_total :: "(string \<rightharpoonup> bn) \<Rightarrow> (string \<rightharpoonup> bn) \<Rightarrow> bn" where
  "mins_total Our Approved = (\<Sum>k \<in> dom Our. min (the (Our k)) (value_or_zero Approved k))"

definition valid_transition_spec :: "bn \<Rightarrow> (string \<rightharpoonup> bn) \<Rightarrow> (string \<rightharpoonup> bn) \<Rightarrow> bool" where
  "valid_transition_spec deposit Prev Next \<longleftrightarrow>
     map_total Next \<ge> map_total Prev \<and>
     map_total Next \<le> deposit \<and>
     (\<forall>k \<in> dom Prev. \<exists>n. Next k = Some n \<and> n \<ge> the (Prev k)) \<and>
     (\<forall>v \<in> ran Next. \<not> v < 0)"

text \<open>
  ``Healthy iff \<open>mins \<ge> total\<close> or \<open>mins * 1000 / total \<ge> HEALTH_THRESHOLD_PROMILLES\<close>
  (integer division)'', on the numbers the specification defines.
\<close>

definition healthy_spec :: "bn \<Rightarrow> (string \<rightharpoonup> bn) \<Rightarrow> (string \<rightharpoonup> bn) \<Rightarrow> bool" where
  "healthy_spec threshold Our Approved \<longleftrightarrow>
     (let mins = mins_total Our Approved; total = map_total Our
      in mins \<ge> total \<or> (mins * 1000) div total \<ge> threshold)"

subsection \<open>The follower's decision as the specification words it\<close>









subsection \<open>Values of the test set-up\<close>

text \<open>The channel, the identities and the publisher of the integration tests
  (test/lib.js and the test database), and the health threshold of 95 per cent the
  specification gives as an example.\<close>

definition test_cfg :: cfg where
  "test_cfg = \<lparr>HEALTH_THRESHOLD_PROMILLES = 950\<rparr>"

definition test_leader :: validator where
  "test_leader = \<lparr>validator_id = ''awesomeLeader'', url = ''http://localhost:8005'', fee = ''0''\<rparr>"

definition test_follower :: validator where
  "test_follower =
     \<lparr>validator_id = ''awesomeFollower'', url = ''http://localhost:8006'', fee = ''0''\<rparr>"

definition test_channel :: channel where
  "test_channel =
     \<lparr>channel_id = ''awesomeTestChannel'',
      depositAmount = 1000,
      validators = [''awesomeLeader'', ''awesomeFollower''],
      spec_validators = [test_leader, test_follower]\<rparr>"

text \<open>
  A stand-in for Joi's rules, used on the bodies below only, whose values need no
  conversion: a number is a JSON number within the safe integer range, an integer
  one without a fraction, an object a JSON object, an array a JSON array, and a URI
  of a scheme starts with the scheme and \<open>://\<close> and goes on. The body of a
  request that creates the test channel, with its deposit and its two fees left
  open.
\<close>

definition plain_rules :: joi_rules where
  "plain_rules =
     \<lparr>number_ok = (\<lambda>j. case j of JNum q \<Rightarrow> \<bar>q\<bar> \<le> 9007199254740991 | _ \<Rightarrow> False),
      integer_ok = (\<lambda>j. case j of JNum q \<Rightarrow> of_int \<lfloor>q\<rfloor> = q | _ \<Rightarrow> False),
      uri_ok = (\<lambda>schemes s.
        list_ex (\<lambda>sc. take (length sc + 3) s = sc @ ''://'' \<and> length sc + 3 < length s) schemes),
      as_object = (\<lambda>j. case j of JObj obj \<Rightarrow> Some obj | _ \<Rightarrow> None),
      as_array = (\<lambda>j. case j of JArr items \<Rightarrow> Some items | _ \<Rightarrow> None)\<rparr>"

definition validator_body :: "string \<Rightarrow> string \<Rightarrow> string \<Rightarrow> json" where
  "validator_body who where_to f =
     JObj [(''id'', JStr who), (''url'', JStr where_to), (''fee'', JStr f)]"

definition channel_body :: "string \<Rightarrow> string \<Rightarrow> string \<Rightarrow> json" where
  "channel_body deposit leader_fee follower_fee =
     JObj [(''id'', JStr ''awesomeTestChannel''),
           (''depositAsset'', JStr ''DAI''),
           (''depositAmount'', JStr deposit),
           (''validUntil'', JNum 4102444800),
           (''creator'', JStr ''awesomeCreator''),
           (''spec'', JObj
              [(''validators'', JArr
                  [validator_body ''awesomeLeader'' ''http://localhost:8005'' leader_fee,
                   validator_body ''awesomeFollower'' ''http://localhost:8006'' follower_fee]),
               (''withdrawPeriodStart'', JNum 4102444800000)])]"

text \<open>Printing a number as a decimal string, the wire form of a balance.\<close>

definition digit_char :: "nat \<Rightarrow> char" where
  "digit_char n = ''0123456789'' ! (n mod 10)"

function decimal_of_nat :: "nat \<Rightarrow> string" where
  "decimal_of_nat n =
     (if n < 10 then [digit_char n]
      else decimal_of_nat (n div 10) @ [digit_char (n mod 10)])"
  by pat_completeness auto
termination
  by (relation "measure id") auto

declare decimal_of_nat.simps [simp del]

text \<open>
  An instance of the parameters for the test channel, whose validators take no
  fee: the conversions between the two forms of a map, a fee tree that leaves the
  balances as they are, one state root that commits to them, and the dummy
  adapter, whose signature is the sentence test/lib.js expects.
\<close>

definition test_root :: string where
  "test_root = ''64aa7fd0d3a9db8e5b0b1b5b4e1c5e8f64aa7fd0d3a9db8e5b0b1b5b4e1c5e8f''"

definition dummy_sig :: "string \<Rightarrow> string \<Rightarrow> string" where
  "dummy_sig hash sender = ''Dummy adapter signature for '' @ hash @ '' by '' @ sender"

definition hex_digit :: "nat \<Rightarrow> char" where
  "hex_digit n = ''0123456789abcdef'' ! (n mod 16)"

definition buffer_to_hex :: "nat list \<Rightarrow> string" where
  "buffer_to_hex bytes = concat (map (\<lambda>b. [hex_digit (b div 16), hex_digit (b mod 16)]) bytes)"

definition test_adapter :: adapter where
  "test_adapter =
     \<lparr>whoami = ''awesomeFollower'',
      verify = (\<lambda>who sr sg.
        case sr of None \<Rightarrow> False
        | Some r \<Rightarrow> (case sg of None \<Rightarrow> False | Some g \<Rightarrow> g = dummy_sig r who)),
      sign = (\<lambda>bytes. dummy_sig (buffer_to_hex bytes) ''awesomeFollower'')\<rparr>"

definition test_lib :: lib where
  "test_lib =
     \<lparr>toBNMap = (\<lambda>m. case m of
         Undefined \<Rightarrow> []
       | StringMap sm \<Rightarrow> map (\<lambda>(k, v). (k, int (nat_of_decimal v))) sm
       | BNMap bm \<Rightarrow> bm),
      toBNStringMap = (\<lambda>m. case m of
         Undefined \<Rightarrow> []
       | StringMap sm \<Rightarrow> sm
       | BNMap bm \<Rightarrow> map (\<lambda>(k, v). (k, decimal_of_nat (nat v))) bm),
      toStringBN = (\<lambda>bm. concat (map (\<lambda>(k, v). k @ '':'' @ decimal_of_nat (nat v) @ '';'') bm)),
      getBalancesAfterFeesTree = (\<lambda>bm channel. bm),
      isValidRootHash = (\<lambda>sr channel afterFees adapter. sr = Some test_root),
      producer_tick = (\<lambda>channel again.
         \<lparr>res_channel = channel, res_balances = [(''myAwesomePublisher'', 3)],
          newStateTree = False\<rparr>),
      date_now = 1546300800000\<rparr>"

definition newState :: "string \<Rightarrow> string \<Rightarrow> string_map \<Rightarrow> nat option \<Rightarrow> message" where
  "newState sr sig bals t =
     \<lparr>msg_type = ''NewState'', stateRoot = Some sr, signature = Some sig,
      balances = StringMap bals, balancesAfterFees = StringMap bals,
      msg_isHealthy = None, created = t\<rparr>"

definition test_newState :: "string \<Rightarrow> message" where
  "test_newState amount =
     newState test_root (dummy_sig test_root ''awesomeLeader'')
       [(''myAwesomePublisher'', amount)] None"

text \<open>The follower's ApproveState of an earlier state, with the balances that
  \<open>augmentWithBalances\<close> joined to it.\<close>

definition earlier_root :: string where
  "earlier_root = ''0b1b5b4e1c5e8f64aa7fd0d3a9db8e5b0b1b5b4e1c5e8f64aa7fd0d3a9db8e5b''"

definition test_approved :: "string \<Rightarrow> message" where
  "test_approved amount =
     (approveState earlier_root True (dummy_sig earlier_root ''awesomeFollower'') None)
       \<lparr>balances := StringMap [(''myAwesomePublisher'', amount)]\<rparr>"

definition test_result :: producer_result where
  "test_result =
     \<lparr>res_channel = test_channel, res_balances = [(''myAwesomePublisher'', 3)],
      newStateTree = False\<rparr>"

text \<open>
  Message stores of the follower. In \<open>approved_store\<close> the leader's NewState is
  followed by the follower's ApproveState of it. In \<open>wrapped_store\<close> the leader's two
  NewState messages were inserted within one second while the driver's counter
  wrapped from \<open>0xfffffe\<close> to 0; in \<open>clock_store\<close> the second one inserted
  carries the smaller \<open>created\<close>, the leader's clock having been set back.
\<close>

definition test_doc :: "nat \<Rightarrow> string \<Rightarrow> message \<Rightarrow> doc" where
  "test_doc i sender m =
     \<lparr>doc_id = i, channelId = ''awesomeTestChannel'', doc_from = sender, msg = m\<rparr>"

definition later_root :: string where
  "later_root = ''e1c5e8f64aa7fd0d3a9db8e5b0b1b5b40b1b5b4e1c5e8f64aa7fd0d3a9db8e5b''"

definition later_newState :: "nat option \<Rightarrow> message" where
  "later_newState t =
     newState later_root (dummy_sig later_root ''awesomeLeader'') [(''myAwesomePublisher'', ''5'')] t"

definition approved_store :: store where
  "approved_store =
     [test_doc (objectId 1546300800 7 1) ''awesomeLeader'' (test_newState ''3''),
      test_doc (objectId 1546300801 7 2) ''awesomeFollower''
        (approveState test_root True (dummy_sig test_root ''awesomeFollower'') None)]"

definition wrapped_store :: store where
  "wrapped_store =
     [test_doc (objectId 1546300800 7 16777214) ''awesomeLeader'' (test_newState ''3''),
      test_doc (objectId 1546300800 7 0) ''awesomeLeader'' (later_newState None)]"

definition clock_store :: store where
  "clock_store =
     [test_doc (objectId 1546300800 7 1) ''awesomeLeader''
        ((test_newState ''3'')\<lparr>created := Some 1546300800500\<rparr>),
      test_doc (objectId 1546300800 7 2) ''awesomeLeader''
        (later_newState (Some 1546300800400))]"

section \<open>Properties of the follower rules\<close>

lemma sumBNs_sum_list: "sumBNs bns = sum_list bns"
proof -
  have "foldl (\<lambda>a b. a + b) a bns = a + sum_list bns" for a :: int
    by (induction bns arbitrary: a) simp_all
  then show ?thesis by (simp add: sumBNs_def)
qed

lemma reduce_add_big: "reduce_add a (map BigNum bns) = Inr (a + sum_list bns)"
  by (induction bns arbitrary: a) (simp_all add: BN_add_def)

lemma sumBNs_any_big: "sumBNs_any (map BigNum bns) = Inr (sumBNs bns)"
  by (simp add: sumBNs_any_def reduce_add_big sumBNs_sum_list)

lemma sum_dom_map_of:
  fixes f :: "string \<Rightarrow> bn \<Rightarrow> bn"
  assumes "distinct (map fst m)"
  shows "(\<Sum>k \<in> dom (map_of m). f k (the (map_of m k))) = sum_list (map (\<lambda>(k, v). f k v) m)"
  using assms
proof (induction m)
  case Nil
  then show ?case by simp
next
  case (Cons e m)
  obtain k v where e: "e = (k, v)" by (cases e)
  from Cons.prems have kd: "k \<notin> dom (map_of m)" and dist: "distinct (map fst m)"
    by (simp_all add: e dom_map_of_conv_image_fst)
  have fin: "finite (dom (map_of m))" by (simp add: finite_dom_map_of)
  have dom: "dom (map_of ((k, v) # m)) = insert k (dom (map_of m))"
    by auto
  have rest: "(\<Sum>x \<in> dom (map_of m). f x (the (map_of ((k, v) # m) x))) =
      (\<Sum>x \<in> dom (map_of m). f x (the (map_of m x)))"
    using kd by (intro sum.cong) auto
  have "(\<Sum>x \<in> dom (map_of ((k, v) # m)). f x (the (map_of ((k, v) # m) x))) =
      f k v + (\<Sum>x \<in> dom (map_of m). f x (the (map_of ((k, v) # m) x)))"
    unfolding dom using fin kd by (simp del: map_of.simps) simp
  also have "\<dots> = f k v + sum_list (map (\<lambda>(k, v). f k v) m)"
    unfolding rest using Cons.IH [OF dist] by simp
  finally have main: "(\<Sum>x \<in> dom (map_of ((k, v) # m)). f x (the (map_of ((k, v) # m) x))) =
      f k v + sum_list (map (\<lambda>(k, v). f k v) m)" .
  have "sum_list (map (\<lambda>(k, v). f k v) ((k, v) # m)) = f k v + sum_list (map (\<lambda>(k, v). f k v) m)"
    by simp
  with main show ?case unfolding e by (simp only:)
qed

lemma sumMap_map_total:
  assumes "wf_balances m"
  shows "sumMap m = map_total (map_of m)"
  using sum_dom_map_of [of m "\<lambda>k v. v"] assms
  by (simp add: sumMap_def sumBNs_sum_list map_total_def wf_balances_def case_prod_unfold)

lemma mins_total_entries:
  assumes "wf_balances our"
  shows "mins_total (map_of our) Approved =
         sum_list (map (\<lambda>(k, v). min v (value_or_zero Approved k)) our)"
  using sum_dom_map_of [of our "\<lambda>k v. min v (value_or_zero Approved k)"] assms
  by (simp add: mins_total_def wf_balances_def)

text \<open>When no key of \<open>our\<close> that \<open>approved\<close> lacks names a member of
  \<open>Object.prototype\<close>, every read gives a big number or \<open>undefined\<close>, and the sum of
  minima is the one the comment in the source describes.\<close>

lemma approved_mins_own:
  assumes "\<forall>(k, v) \<in> set our. map_of approved k \<noteq> None \<or> map_of object_prototype k = None"
  shows "approved_mins approved our =
         Inr (map (\<lambda>(k, v). BigNum (min v (value_or_zero (map_of approved) k))) our)"
  using assms
proof (induction our)
  case Nil
  then show ?case by simp
next
  case (Cons e our)
  obtain k v where e: "e = (k, v)" by (cases e)
  from Cons.prems have here: "map_of approved k \<noteq> None \<or> map_of object_prototype k = None"
    and rest: "\<forall>(k, v) \<in> set our. map_of approved k \<noteq> None \<or> map_of object_prototype k = None"
    by (simp_all add: e)
  from here have "BN_min v (or_zero (js_get approved k)) =
      Inr (BigNum (min v (value_or_zero (map_of approved) k)))"
    by (auto simp: BN_min_def or_zero_def js_get_def value_or_zero_def min_def
        split: option.splits)
  with Cons.IH [OF rest] show ?case by (simp add: e)
qed

lemma sumMins_own:
  assumes "\<forall>(k, v) \<in> set our. map_of approved k \<noteq> None \<or> map_of object_prototype k = None"
  shows "sumMins our approved =
         Inr (sum_list (map (\<lambda>(k, v). min v (value_or_zero (map_of approved) k)) our))"
proof -
  have eq: "map (\<lambda>(k, v). BigNum (min v (value_or_zero (map_of approved) k))) our =
        map BigNum (map (\<lambda>(k, v). min v (value_or_zero (map_of approved) k)) our)"
    by (simp add: case_prod_unfold)
  have "sumMins our approved =
      sumBNs_any (map BigNum (map (\<lambda>(k, v). min v (value_or_zero (map_of approved) k)) our))"
    by (simp only: sumMins_def approved_mins_own [OF assms] eq sum.case)
  also have "\<dots> = Inr (sum_list (map (\<lambda>(k, v). min v (value_or_zero (map_of approved) k)) our))"
    by (simp only: sumBNs_any_big sumBNs_sum_list)
  finally show ?thesis .
qed

subsection \<open>isValidTransition\<close>

lemma every_next_gte_True_iff:
  "every_next_gte next prev = Inr True \<longleftrightarrow>
     (\<forall>(k, v) \<in> set prev. \<exists>n. map_of next k = Some n \<and> n \<ge> v)"
proof (induction prev)
  case Nil
  then show ?case by simp
next
  case (Cons e prev)
  obtain k v where e: "e = (k, v)" by (cases e)
  show ?case
  proof (cases "map_of next k")
    case None
    then show ?thesis
      by (simp add: e js_get_def split: option.splits)
  next
    case (Some n)
    with Cons.IH show ?thesis
      by (simp add: e js_get_def)
  qed
qed

lemma entries_dom:
  assumes "wf_balances m"
  shows "(\<forall>(k, v) \<in> set m. P k v) \<longleftrightarrow> (\<forall>k \<in> dom (map_of m). P k (the (map_of m k)))"
  using assms unfolding wf_balances_def
  by (auto simp: dom_def)

lemma entries_ran:
  assumes "wf_balances m"
  shows "(\<forall>(k, v) \<in> set m. Q v) \<longleftrightarrow> (\<forall>v \<in> ran (map_of m). Q v)"
  using assms unfolding wf_balances_def
  by (auto simp: ran_def)

lemma isValidTransition_True_iff:
  "isValidTransition channel prev next = Inr True \<longleftrightarrow>
     sumMap next \<ge> sumMap prev \<and> sumMap next \<le> depositAmount channel \<and>
     (\<forall>(k, v) \<in> set prev. \<exists>n. map_of next k = Some n \<and> n \<ge> v) \<and>
     (\<forall>(k, v) \<in> set next. \<not> v < 0)"
proof -
  have "(case every_next_gte next prev of
           Inl e \<Rightarrow> Inl e
         | Inr covered \<Rightarrow>
             if covered then Inr (list_all (\<lambda>(acc, bal). \<not> bal < 0) next) else Inr False) = Inr True
        \<longleftrightarrow> every_next_gte next prev = Inr True \<and> list_all (\<lambda>(acc, bal). \<not> bal < 0) next"
    by (cases "every_next_gte next prev") auto
  then show ?thesis
    by (simp add: isValidTransition_def Let_def every_next_gte_True_iff list_all_iff)
qed

text \<open>
  Claim C1. For every channel and balance maps \<open>prev\<close> and \<open>next\<close>,
  \<open>isValidTransition(channel, prev, next)\<close> returns true if and only if all four
  conditions hold: \<open>sum(next) \<ge> sum(prev)\<close>; \<open>sum(next) \<le> channel.depositAmount\<close>;
  for every key \<open>k\<close> in \<open>prev\<close>, \<open>next[k]\<close> exists and \<open>next[k] \<ge> prev[k]\<close>;
  and no value in \<open>next\<close> is negative.

  Where a condition fails the call returns false or, on a key of \<open>prev\<close> that
  \<open>next\<close> lacks and \<open>Object.prototype\<close> has, raises a TypeError; in neither case
  does it return true.
\<close>

theorem isValidTransition_iff_spec:
  assumes "wf_balances prev" and "wf_balances next"
  shows "isValidTransition channel prev next = Inr True \<longleftrightarrow>
         valid_transition_spec (depositAmount channel) (map_of prev) (map_of next)"
proof -
  have a: "(\<forall>(k, v) \<in> set prev. \<exists>n. map_of next k = Some n \<and> n \<ge> v)
      \<longleftrightarrow> (\<forall>k \<in> dom (map_of prev). \<exists>n. map_of next k = Some n \<and> n \<ge> the (map_of prev k))"
    by (rule entries_dom [OF assms(1)])
  have b: "(\<forall>(k, v) \<in> set next. \<not> v < 0) \<longleftrightarrow> (\<forall>v \<in> ran (map_of next). \<not> v < 0)"
    by (rule entries_ran [OF assms(2)])
  show ?thesis
    unfolding isValidTransition_True_iff valid_transition_spec_def a b
      sumMap_map_total [OF assms(1)] sumMap_map_total [OF assms(2)] ..
qed

text \<open>The theorem at three transitions of the test channel: from 3 to 5 for the
  publisher, which is valid; from 7 back to 5, which is not; and from a balance
  under the key \<open>toString\<close> to a map without that key, where the call raises.\<close>

lemmas rules_eval = isValidTransition_def sumMap_def sumBNs_def js_get_def object_prototype_def

theorem isValidTransition_iff_spec_witness:
  "wf_balances [(''myAwesomePublisher'', 3)] \<and>
   wf_balances [(''myAwesomePublisher'', 5)] \<and>
   wf_balances [(''myAwesomePublisher'', 7)] \<and>
   wf_balances [(''toString'', 1)] \<and>
   isValidTransition test_channel [(''myAwesomePublisher'', 3)] [(''myAwesomePublisher'', 5)]
     = Inr True \<and>
   valid_transition_spec 1000 (map_of [(''myAwesomePublisher'', 3)]) (map_of [(''myAwesomePublisher'', 5)]) \<and>
   isValidTransition test_channel [(''myAwesomePublisher'', 7)] [(''myAwesomePublisher'', 5)]
     = Inr False \<and>
   \<not> valid_transition_spec 1000 (map_of [(''myAwesomePublisher'', 7)]) (map_of [(''myAwesomePublisher'', 5)]) \<and>
   isValidTransition test_channel [(''toString'', 1)] [(''myAwesomePublisher'', 1)]
     = Inl TypeError \<and>
   \<not> valid_transition_spec 1000 (map_of [(''toString'', 1)]) (map_of [(''myAwesomePublisher'', 1)])"
proof -
  have wf: "wf_balances [(k, n)]" for k n
    by (simp add: wf_balances_def)
  have dep: "depositAmount test_channel = 1000"
    by (simp add: test_channel_def)
  have ok: "isValidTransition test_channel [(''myAwesomePublisher'', 3)] [(''myAwesomePublisher'', 5)]
      = Inr True"
    and bad: "isValidTransition test_channel [(''myAwesomePublisher'', 7)] [(''myAwesomePublisher'', 5)]
      = Inr False"
    and raised: "isValidTransition test_channel [(''toString'', 1)] [(''myAwesomePublisher'', 1)]
      = Inl TypeError"
    by (simp_all add: rules_eval test_channel_def)
  from ok isValidTransition_iff_spec [OF wf wf, of test_channel "''myAwesomePublisher''" 3 "''myAwesomePublisher''" 5]
  have "valid_transition_spec 1000 (map_of [(''myAwesomePublisher'', 3)]) (map_of [(''myAwesomePublisher'', 5)])"
    by (simp add: dep)
  moreover from bad isValidTransition_iff_spec [OF wf wf, of test_channel "''myAwesomePublisher''" 7 "''myAwesomePublisher''" 5]
  have "\<not> valid_transition_spec 1000 (map_of [(''myAwesomePublisher'', 7)]) (map_of [(''myAwesomePublisher'', 5)])"
    by (simp add: dep)
  moreover from raised isValidTransition_iff_spec [OF wf wf, of test_channel "''toString''" 1 "''myAwesomePublisher''" 1]
  have "\<not> valid_transition_spec 1000 (map_of [(''toString'', 1)]) (map_of [(''myAwesomePublisher'', 1)])"
    by (simp add: dep)
  ultimately show ?thesis using wf ok bad raised by blast
qed

text \<open>
  Claim C9. isValidTransition is transitive: for every channel \<open>c\<close> and balance maps
  \<open>a\<close>, \<open>b\<close>, \<open>d\<close>, if \<open>isValidTransition(c, a, b)\<close> and \<open>isValidTransition(c, b, d)\<close>
  both hold, then \<open>isValidTransition(c, a, d)\<close> holds.
\<close>

theorem isValidTransition_trans:
  assumes ab: "isValidTransition c a b = Inr True" and bd: "isValidTransition c b d = Inr True"
  shows "isValidTransition c a d = Inr True"
proof -
  note ab' = ab [unfolded isValidTransition_True_iff]
  note bd' = bd [unfolded isValidTransition_True_iff]
  have keys: "\<exists>n. map_of d k = Some n \<and> n \<ge> v" if kv: "(k, v) \<in> set a" for k v
  proof -
    from ab' kv obtain m where m: "map_of b k = Some m" "m \<ge> v"
      by fastforce
    from m(1) have "(k, m) \<in> set b" by (rule map_of_SomeD)
    with bd' obtain n where "map_of d k = Some n" "n \<ge> m"
      by fastforce
    with m(2) show ?thesis by auto
  qed
  have "sumMap d \<ge> sumMap a" "sumMap d \<le> depositAmount c" "\<forall>(k, v) \<in> set d. \<not> v < 0"
    using ab' bd' by simp_all
  moreover have "\<forall>(k, v) \<in> set a. \<exists>n. map_of d k = Some n \<and> n \<ge> v"
    using keys by auto
  ultimately show ?thesis
    unfolding isValidTransition_True_iff by blast
qed

theorem isValidTransition_trans_witness:
  "isValidTransition test_channel [(''myAwesomePublisher'', 1)] [(''myAwesomePublisher'', 3)]
     = Inr True \<and>
   isValidTransition test_channel [(''myAwesomePublisher'', 3)]
     [(''myAwesomePublisher'', 5), (''anotherPublisher'', 2)] = Inr True \<and>
   isValidTransition test_channel [(''myAwesomePublisher'', 1)]
     [(''myAwesomePublisher'', 5), (''anotherPublisher'', 2)] = Inr True"
proof -
  have ab: "isValidTransition test_channel [(''myAwesomePublisher'', 1)] [(''myAwesomePublisher'', 3)]
      = Inr True"
    and bd: "isValidTransition test_channel [(''myAwesomePublisher'', 3)]
      [(''myAwesomePublisher'', 5), (''anotherPublisher'', 2)] = Inr True"
    by (simp_all add: rules_eval test_channel_def)
  from ab bd isValidTransition_trans [OF ab bd] show ?thesis by blast
qed

subsection \<open>isHealthy\<close>

lemma bn_div_nonneg:
  assumes "0 \<le> a" and "0 < b"
  shows "bn_div a b = Inr (a div b)"
proof (cases "a = 0")
  case True
  then show ?thesis using assms by (simp add: bn_div_def)
next
  case False
  with assms have "sgn a = 1" "sgn b = 1" "\<bar>a\<bar> = a" "\<bar>b\<bar> = b" by simp_all
  then show ?thesis using assms by (simp add: bn_div_def)
qed

lemma mins_total_nonneg:
  assumes "\<forall>v \<in> ran Our. 0 \<le> v" and "\<forall>v \<in> ran Approved. 0 \<le> v"
  shows "0 \<le> mins_total Our Approved"
  unfolding mins_total_def
proof (rule sum_nonneg)
  fix k assume "k \<in> dom Our"
  then obtain v where v: "Our k = Some v" by auto
  then have "v \<in> ran Our" by (auto simp: ran_def)
  with assms(1) have "0 \<le> v" by blast
  moreover have "0 \<le> value_or_zero Approved k"
  proof (cases "Approved k")
    case None
    then show ?thesis by (simp add: value_or_zero_def)
  next
    case (Some a)
    then have "a \<in> ran Approved" by (auto simp: ran_def)
    with assms(2) Some show ?thesis by (simp add: value_or_zero_def)
  qed
  ultimately show "0 \<le> min (the (Our k)) (value_or_zero Approved k)"
    using v by simp
qed

lemma sumMins_plain_keys:
  assumes wf: "wf_balances our"
    and own: "\<forall>k \<in> dom (map_of our). map_of approved k \<noteq> None \<or> map_of object_prototype k = None"
  shows "sumMins our approved = Inr (mins_total (map_of our) (map_of approved))"
proof -
  from own have "\<forall>(k, v) \<in> set our. map_of approved k \<noteq> None \<or> map_of object_prototype k = None"
    by (fastforce simp: dom_def dest: weak_map_of_SomeI)
  from sumMins_own [OF this] show ?thesis
    by (simp add: mins_total_entries [OF wf])
qed

text \<open>Where the claim about isHealthy holds: on maps without a negative value, when
  no key of \<open>our\<close> that \<open>approved\<close> lacks names a member of \<open>Object.prototype\<close>.\<close>

lemma isHealthy_plain_keys:
  assumes wf: "wf_balances our"
    and own: "\<forall>k \<in> dom (map_of our). map_of approved k \<noteq> None \<or> map_of object_prototype k = None"
    and nn: "\<forall>v \<in> ran (map_of our). 0 \<le> v" "\<forall>v \<in> ran (map_of approved). 0 \<le> v"
  shows "isHealthy c our approved =
         Inr (healthy_spec (HEALTH_THRESHOLD_PROMILLES c) (map_of our) (map_of approved))"
proof -
  let ?mins = "mins_total (map_of our) (map_of approved)"
  let ?total = "map_total (map_of our)"
  have mins: "0 \<le> ?mins" by (rule mins_total_nonneg [OF nn])
  note sums = sumMins_plain_keys [OF wf own] sumMap_map_total [OF wf]
  show ?thesis
  proof (cases "?mins \<ge> ?total")
    case True
    then show ?thesis
      by (simp add: isHealthy_def healthy_spec_def Let_def sums)
  next
    case False
    with mins have pos: "0 < ?total" by simp
    from mins have "0 \<le> ?mins * 1000" by simp
    from bn_div_nonneg [OF this pos] False show ?thesis
      by (simp add: isHealthy_def healthy_spec_def Let_def sums not_less)
  qed
qed

lemmas health_eval = isHealthy_def sumMap_def sumMins_def sumBNs_def sumBNs_any_def
  BN_min_def BN_add_def or_zero_def js_get_def object_prototype_def bn_div_def

text \<open>
  Claim C2. For every pair of balance maps \<open>our\<close> and \<open>approved\<close>, with \<open>mins\<close> the
  sum over keys \<open>k\<close> of \<open>min(our[k], approved[k] or 0)\<close> and \<open>total\<close> the sum of
  \<open>our\<close>, \<open>isHealthy(our, approved)\<close> returns true if and only if \<open>mins \<ge> total\<close> or
  \<open>(mins * 1000) / total \<ge> HEALTH_THRESHOLD_PROMILLES\<close> under integer division; in
  particular when \<open>total = 0\<close> it returns true.

  The code at two pairs of maps without a negative value, where the claim gives
  true. A publisher named \<open>constructor\<close> has 1 with us and is unknown to the peer,
  another has 999 on both sides: 999 promille, above the threshold. And the only
  balance, under \<open>constructor\<close>, is 0, so that the total is 0. In both the peer's
  map lacks the key, the read finds \<open>Object.prototype.constructor\<close> instead of the
  0 that the comment in \<open>sumMins\<close> promises, and the sum raises a TypeError.
\<close>

theorem isHealthy_prototype_key_raises:
  "healthy_spec 950
     (map_of [(''constructor'', 1), (''myAwesomePublisher'', 999)])
     (map_of [(''myAwesomePublisher'', 999)]) \<and>
   isHealthy test_cfg [(''constructor'', 1), (''myAwesomePublisher'', 999)]
     [(''myAwesomePublisher'', 999)] = Inl TypeError \<and>
   map_total (map_of [(''constructor'', 0)]) = 0 \<and>
   isHealthy test_cfg [(''constructor'', 0)] [] = Inl TypeError"
proof -
  have wf: "wf_balances [(''constructor'', 1), (''myAwesomePublisher'', 999)]"
    "wf_balances [(''constructor'', n)]" for n
    by (simp_all add: wf_balances_def)
  have "healthy_spec 950
     (map_of [(''constructor'', 1), (''myAwesomePublisher'', 999)])
     (map_of [(''myAwesomePublisher'', 999)])"
    unfolding healthy_spec_def Let_def mins_total_entries [OF wf(1)]
      sumMap_map_total [OF wf(1), symmetric]
    by (simp add: sumMap_def sumBNs_def value_or_zero_def)
  moreover have "map_total (map_of [(''constructor'', 0)]) = 0"
    unfolding sumMap_map_total [OF wf(2), symmetric]
    by (simp add: sumMap_def sumBNs_def)
  moreover have "isHealthy test_cfg [(''constructor'', 1), (''myAwesomePublisher'', 999)]
     [(''myAwesomePublisher'', 999)] = Inl TypeError"
    "isHealthy test_cfg [(''constructor'', 0)] [] = Inl TypeError"
    by (simp_all add: health_eval)
  ultimately show ?thesis by blast
qed

text \<open>
  Claim C6. For every pair of balance maps \<open>our\<close> and \<open>approved\<close> such that for every
  key \<open>k\<close> of \<open>our\<close>, \<open>approved[k]\<close> exists and \<open>our[k] \<le> approved[k]\<close>,
  \<open>isHealthy(our, approved)\<close> returns true.
\<close>

theorem isHealthy_pointwise_le:
  assumes wf: "wf_balances our"
    and le: "\<forall>k \<in> dom (map_of our). \<exists>a. map_of approved k = Some a \<and> the (map_of our k) \<le> a"
  shows "isHealthy c our approved = Inr True"
proof -
  have "min (the (map_of our k)) (value_or_zero (map_of approved) k) = the (map_of our k)"
    if "k \<in> dom (map_of our)" for k
  proof -
    from le that obtain a where "map_of approved k = Some a" "the (map_of our k) \<le> a"
      by blast
    then show ?thesis by (simp add: value_or_zero_def)
  qed
  then have eq: "mins_total (map_of our) (map_of approved) = map_total (map_of our)"
    by (simp add: mins_total_def map_total_def)
  from le have own: "\<forall>k \<in> dom (map_of our).
      map_of approved k \<noteq> None \<or> map_of object_prototype k = None"
    by fastforce
  show ?thesis
    by (simp add: isHealthy_def Let_def sumMins_plain_keys [OF wf own] sumMap_map_total [OF wf] eq)
qed

theorem isHealthy_pointwise_le_witness:
  "wf_balances [(''myAwesomePublisher'', 3), (''anotherPublisher'', - 2)] \<and>
   isHealthy test_cfg [(''myAwesomePublisher'', 3), (''anotherPublisher'', - 2)]
     [(''anotherPublisher'', 0), (''myAwesomePublisher'', 4)] = Inr True"
proof -
  have wf: "wf_balances [(''myAwesomePublisher'', 3), (''anotherPublisher'', - 2)]"
    by (simp add: wf_balances_def)
  have le: "\<forall>k \<in> dom (map_of [(''myAwesomePublisher'', 3::int), (''anotherPublisher'', - 2)]).
      \<exists>a. map_of [(''anotherPublisher'', 0::int), (''myAwesomePublisher'', 4)] k = Some a \<and>
        the (map_of [(''myAwesomePublisher'', 3), (''anotherPublisher'', - 2)] k) \<le> a"
    by simp
  from wf isHealthy_pointwise_le [OF wf le] show ?thesis by blast
qed







section \<open>Properties of the follower's tick\<close>

subsection \<open>onNewState\<close>









text \<open>
  Claim C4. Whenever any of the four follower validity checks fails on a pending
  NewState, a RejectState message carrying the failure reason is persisted and
  propagated, and no ApproveState is emitted for that stateRoot.

  follower.js at the fourth scenario of the specification, a NewState of 5 for the
  publisher after an approved 7: the transition is invalid, a line goes to the error
  console, the result is \<open>{ nothingNew: true }\<close>, and nothing is persisted or
  propagated. (The second version of the file hands the reason to \<open>onError\<close>.)
\<close>

theorem onNewState_invalid_transition_only_logs:
  "isValidTransition test_channel [(''myAwesomePublisher'', 7)] [(''myAwesomePublisher'', 5)]
     = Inr False \<and>
   onNewState test_cfg test_lib test_adapter test_result (test_newState ''5'')
       (Some (test_approved ''7'')) =
     ([ConsoleError ''validatatorWorker: awesomeTestChannel: invalid transition requested in NewState''],
      Inr (NothingNew True))"
proof -
  have bad: "isValidTransition test_channel [(''myAwesomePublisher'', 7)] [(''myAwesomePublisher'', 5)]
      = Inr False"
    by (simp add: rules_eval test_channel_def)
  have n5: "toBNMap test_lib (balances (test_newState ''5'')) = [(''myAwesomePublisher'', 5)]"
    and p7: "toBNMap test_lib (balances (test_approved ''7'')) = [(''myAwesomePublisher'', 7)]"
    by (simp_all add: test_lib_def test_newState_def newState_def test_approved_def
        approveState_def nat_of_decimal_def)
  have ch: "res_channel test_result = test_channel"
    by (simp add: test_result_def)
  have pre: "log_prefix test_channel = ''validatatorWorker: awesomeTestChannel: ''"
    by (simp add: log_prefix_def test_channel_def)
  from bad show ?thesis
    by (simp add: onNewState_def Let_def n5 p7 ch pre)
qed

subsection \<open>tick\<close>

lemma tick_with_idle:
  assumes "augmentWithBalances st (latest st (channel_id ch) (Some (whoami ad)) ''ApproveState'')
      = Inr approveMsg"
    and "latest st (channel_id ch) (leader_of ch) ''NewState'' = None \<or>
      (\<exists>n a. latest st (channel_id ch) (leader_of ch) ''NewState'' = Some n \<and>
         approveMsg = Some a \<and> stateRoot n = stateRoot a)"
  shows "tick_with latest on_new l ad st ch =
     ([ProducerTick ch False,
       HeartbeatIfNothingNew ch (NothingNew (\<not> newStateTree (producer_tick l ch False)))], None)"
  using assms
  by (auto simp: tick_with_def Let_def then_heartbeat_def latestIsApproved_def
      split: option.splits)

lemma tick_with_assertion:
  assumes "augmentWithBalances st (latest st (channel_id ch) (Some (whoami ad)) ''ApproveState'')
      = Inl e"
  shows "tick_with latest on_new l ad st ch = ([], Some e)"
  using assms by (simp add: tick_with_def Let_def)

lemma test_ids:
  "whoami test_adapter = ''awesomeFollower''"
  "channel_id test_channel = ''awesomeTestChannel''"
  "leader_of test_channel = Some ''awesomeLeader''"
  by (simp_all add: test_adapter_def test_channel_def leader_of_def)

lemma approved_latest:
  "getLatestMsg approved_store ''awesomeTestChannel'' (Some ''awesomeLeader'') ''NewState'' =
     Some (test_newState ''3'')"
  "getLatestMsg approved_store ''awesomeTestChannel'' (Some ''awesomeFollower'') ''ApproveState'' =
     Some (approveState test_root True (dummy_sig test_root ''awesomeFollower'') None)"
  by (simp_all add: getLatestMsg_def matching_def approved_store_def test_doc_def
      approveState_def test_newState_def newState_def)

text \<open>
  Claim C5. On a follower tick, if the latest NewState from the leader is missing,
  or its stateRoot equals the stateRoot of the follower's own latest ApproveState,
  the follower runs only the producer tick followed by the heartbeat path and emits
  no ApproveState; onNewState is not invoked.

  The follower's own latest ApproveState is the message \<open>augmentWithBalances\<close>
  resolves to, joined to the NewState it approved; the follower writes an
  ApproveState only for a NewState it read from the same store. (Were the join to
  fail its assertion, the tick would be rejected with that error and run nothing.)
  Both versions of the file.
\<close>

theorem tick_nothing_to_approve:
  "(\<forall>approveMsg.
      augmentWithBalances st (getLatestMsg st (channel_id ch) (Some (whoami ad)) ''ApproveState'')
        = Inr approveMsg \<and>
      (getLatestMsg st (channel_id ch) (leader_of ch) ''NewState'' = None \<or>
       (\<exists>n a. getLatestMsg st (channel_id ch) (leader_of ch) ''NewState'' = Some n \<and>
          approveMsg = Some a \<and> stateRoot n = stateRoot a)) \<longrightarrow>
      tick c l ad st ch =
        ([ProducerTick ch False,
          HeartbeatIfNothingNew ch (NothingNew (\<not> newStateTree (producer_tick l ch False)))],
         None)) \<and>
   (\<forall>approveMsg.
      augmentWithBalances st
          (getLatestMsg_created st (channel_id ch) (Some (whoami ad)) ''ApproveState'')
        = Inr approveMsg \<and>
      (getLatestMsg_created st (channel_id ch) (leader_of ch) ''NewState'' = None \<or>
       (\<exists>n a. getLatestMsg_created st (channel_id ch) (leader_of ch) ''NewState'' = Some n \<and>
          approveMsg = Some a \<and> stateRoot n = stateRoot a)) \<longrightarrow>
      tick_onError c l ad st ch =
        ([ProducerTick ch False,
          HeartbeatIfNothingNew ch (NothingNew (\<not> newStateTree (producer_tick l ch False)))],
         None)) \<and>
   (\<forall>e. augmentWithBalances st
           (getLatestMsg st (channel_id ch) (Some (whoami ad)) ''ApproveState'') = Inl e \<longrightarrow>
        tick c l ad st ch = ([], Some e)) \<and>
   (\<forall>e. augmentWithBalances st
           (getLatestMsg_created st (channel_id ch) (Some (whoami ad)) ''ApproveState'') = Inl e \<longrightarrow>
        tick_onError c l ad st ch = ([], Some e))"
  unfolding tick_def tick_onError_def
  using tick_with_idle [of st getLatestMsg ch ad _ "onNewState c l ad" l]
    tick_with_idle [of st getLatestMsg_created ch ad _ "onNewState_onError c l ad" l]
    tick_with_assertion [of st getLatestMsg ch ad _ "onNewState c l ad" l]
    tick_with_assertion [of st getLatestMsg_created ch ad _ "onNewState_onError c l ad" l]
  by blast

text \<open>The theorem on the follower's store once it has approved the leader's latest
  NewState, and on the empty store.\<close>

theorem tick_nothing_to_approve_witness:
  "tick test_cfg test_lib test_adapter approved_store test_channel =
     ([ProducerTick test_channel False, HeartbeatIfNothingNew test_channel (NothingNew True)], None) \<and>
   tick test_cfg test_lib test_adapter [] test_channel =
     ([ProducerTick test_channel False, HeartbeatIfNothingNew test_channel (NothingNew True)], None)"
proof -
  let ?a = "approveState test_root True (dummy_sig test_root ''awesomeFollower'') None"
  have aug: "augmentWithBalances approved_store
      (getLatestMsg approved_store (channel_id test_channel) (Some (whoami test_adapter)) ''ApproveState'')
      = Inr (Some (?a\<lparr>balances := StringMap [(''myAwesomePublisher'', ''3'')]\<rparr>))"
    unfolding test_ids approved_latest
    by (simp add: augmentWithBalances_def approved_store_def test_doc_def approveState_def
        test_newState_def newState_def truthy_map_def)
  have same: "getLatestMsg approved_store (channel_id test_channel) (leader_of test_channel) ''NewState''
        = Some (test_newState ''3'') \<and>
      Some (?a\<lparr>balances := StringMap [(''myAwesomePublisher'', ''3'')]\<rparr>) =
        Some (?a\<lparr>balances := StringMap [(''myAwesomePublisher'', ''3'')]\<rparr>) \<and>
      stateRoot (test_newState ''3'') =
        stateRoot (?a\<lparr>balances := StringMap [(''myAwesomePublisher'', ''3'')]\<rparr>)"
    unfolding test_ids approved_latest
    by (simp add: approveState_def test_newState_def newState_def)
  have aug0: "augmentWithBalances []
      (getLatestMsg [] (channel_id test_channel) (Some (whoami test_adapter)) ''ApproveState'')
      = Inr None"
    and none0: "getLatestMsg [] (channel_id test_channel) (leader_of test_channel) ''NewState'' = None"
    by (simp_all add: augmentWithBalances_def getLatestMsg_def matching_def)
  have no_tree: "newStateTree (producer_tick test_lib test_channel False) = False"
    by (simp add: test_lib_def)
  from tick_nothing_to_approve [of approved_store test_channel test_adapter test_cfg test_lib] aug same
  have "tick test_cfg test_lib test_adapter approved_store test_channel =
     ([ProducerTick test_channel False,
       HeartbeatIfNothingNew test_channel
         (NothingNew (\<not> newStateTree (producer_tick test_lib test_channel False)))], None)"
    by blast
  then have one: "tick test_cfg test_lib test_adapter approved_store test_channel =
     ([ProducerTick test_channel False, HeartbeatIfNothingNew test_channel (NothingNew True)], None)"
    by (simp only: no_tree not_False_eq_True)
  from tick_nothing_to_approve [of "[]" test_channel test_adapter test_cfg test_lib] aug0 none0
  have "tick test_cfg test_lib test_adapter [] test_channel =
     ([ProducerTick test_channel False,
       HeartbeatIfNothingNew test_channel
         (NothingNew (\<not> newStateTree (producer_tick test_lib test_channel False)))], None)"
    by blast
  then have two: "tick test_cfg test_lib test_adapter [] test_channel =
     ([ProducerTick test_channel False, HeartbeatIfNothingNew test_channel (NothingNew True)], None)"
    by (simp only: no_tree not_False_eq_True)
  from one two show ?thesis by (rule conjI)
qed

subsection \<open>getLatestMsg\<close>

text \<open>
  Claim C8. \<open>getLatestMsg(channelId, from, type)\<close> returns, among all stored
  validator messages matching that channelId, sender, and message type, the one that
  was inserted last (newest by insertion order), or null when no such message exists.

  The code sorts by \<open>_id\<close> (by \<open>msg.created\<close> in the second version), which its own
  comment calls flawed. In \<open>wrapped_store\<close> and in \<open>clock_store\<close> both of the
  leader's NewState messages match, the one inserted last is the later one, and the
  call returns the other.
\<close>

theorem getLatestMsg_not_last_inserted:
  "matching wrapped_store ''awesomeTestChannel'' (Some ''awesomeLeader'') ''NewState'' = wrapped_store \<and>
   msg (last wrapped_store) = later_newState None \<and>
   getLatestMsg wrapped_store ''awesomeTestChannel'' (Some ''awesomeLeader'') ''NewState'' =
     Some (test_newState ''3'') \<and>
   matching clock_store ''awesomeTestChannel'' (Some ''awesomeLeader'') ''NewState'' = clock_store \<and>
   msg (last clock_store) = later_newState (Some 1546300800400) \<and>
   getLatestMsg_created clock_store ''awesomeTestChannel'' (Some ''awesomeLeader'') ''NewState'' =
     Some ((test_newState ''3'')\<lparr>created := Some 1546300800500\<rparr>) \<and>
   test_newState ''3'' \<noteq> later_newState None \<and>
   (test_newState ''3'')\<lparr>created := Some 1546300800500\<rparr> \<noteq> later_newState (Some 1546300800400)"
  by (simp add: getLatestMsg_def getLatestMsg_created_def matching_def wrapped_store_def
      clock_store_def test_doc_def test_newState_def later_newState_def newState_def objectId_def
      created_rank_def)

section \<open>Properties of the createChannel schema\<close>

lemma required_iff: "required rule v \<longleftrightarrow> (\<exists>j. v = Some j \<and> rule j)"
  by (cases v) (simp_all add: required_def)

lemma createChannel_body_accepted:
  assumes "numericString (JStr d)" and "numericString (JStr f1)" and "numericString (JStr f2)"
  shows "createChannel plain_rules (channel_body d f1 f2)"
  using assms
  by (simp add: createChannel_def joi_object_keys_def joi_keys_def createChannel_schema_def
      spec_schema_def validator_schema_def required_def optional_def joi_string_def joi_integer_def
      joi_number_def joi_uri_def joi_array_items_def joi_array_length_def joi_object_def
      plain_rules_def channel_body_def validator_body_def)

lemma createChannel_shape:
  assumes "createChannel r body"
  shows "\<exists>b d spj sp vj vs.
           as_object r body = Some b \<and>
           map_of b ''depositAmount'' = Some d \<and> numericString d \<and>
           map_of b ''spec'' = Some spj \<and> as_object r spj = Some sp \<and>
           map_of sp ''validators'' = Some vj \<and> as_array r vj = Some vs \<and>
           length vs = 2 \<and>
           (\<forall>v \<in> set vs. \<exists>vo f. as_object r v = Some vo \<and>
              map_of vo ''fee'' = Some f \<and> numericString f)"
proof -
  from assms obtain b where b: "as_object r body = Some b"
    and keys: "joi_keys (createChannel_schema r) b"
    by (auto simp: createChannel_def joi_object_keys_def split: option.splits)
  from keys obtain d where d: "map_of b ''depositAmount'' = Some d" "numericString d"
    by (auto simp: joi_keys_def createChannel_schema_def required_iff)
  from keys obtain spj where spj: "map_of b ''spec'' = Some spj"
    and spk: "joi_object_keys r (spec_schema r) spj"
    by (auto simp: joi_keys_def createChannel_schema_def required_iff)
  from spk obtain sp where sp: "as_object r spj = Some sp" and spkeys: "joi_keys (spec_schema r) sp"
    by (auto simp: joi_object_keys_def split: option.splits)
  from spkeys obtain vj where vj: "map_of sp ''validators'' = Some vj"
    and items: "joi_array_items r (joi_object_keys r (validator_schema r)) vj"
    and len: "joi_array_length r 2 vj"
    by (auto simp: joi_keys_def spec_schema_def required_iff)
  from items len obtain vs where vs: "as_array r vj = Some vs" "length vs = 2"
    and each: "list_all (joi_object_keys r (validator_schema r)) vs"
    by (auto simp: joi_array_items_def joi_array_length_def split: option.splits)
  have "\<exists>vo f. as_object r v = Some vo \<and> map_of vo ''fee'' = Some f \<and> numericString f"
    if "v \<in> set vs" for v
  proof -
    from each that have "joi_object_keys r (validator_schema r) v"
      by (simp add: list_all_iff)
    then show ?thesis
      by (auto simp: joi_object_keys_def joi_keys_def validator_schema_def required_iff
          split: option.splits)
  qed
  with b d spj sp vj vs show ?thesis by blast
qed

text \<open>
  Claim C7. Every channel accepted by the createChannel validation schema satisfies
  that the sum of its two validators' declared fees does not exceed its
  depositAmount; a channel whose fee sum exceeds the deposit is rejected at creation.

  The schema has a rule for each key and none that relates two keys: the body of
  the test channel with a deposit of 1 and a fee of 1 for each validator passes.
\<close>

theorem createChannel_fees_counterexample:
  "createChannel plain_rules (channel_body ''1'' ''1'' ''1'') \<and>
   \<not> fees_within_deposit (channel_body ''1'' ''1'' ''1'')"
proof -
  have num: "numericString (JStr ''1'')"
    by (simp add: numericString_def is_digit_def)
  have "\<not> fees_within_deposit (channel_body ''1'' ''1'' ''1'')"
    by (simp add: fees_within_deposit_def declared_fees_def decimal_field_def field_def
        channel_body_def validator_body_def nat_of_decimal_def)
  with createChannel_body_accepted [OF num num num] show ?thesis by blast
qed


text \<open>
  Claim C7, amended. Every channel accepted by the createChannel validation schema
  has a depositAmount that is a string of decimal digits and exactly two validators,
  each with a fee that is a string of decimal digits. The schema does not compare
  the fees with the deposit: the body of the test channel passes with any three
  strings of digits as its deposit and its two fees.
\<close>

theorem createChannel_checks_fields_alone:
  "(createChannel r body \<longrightarrow>
      (\<exists>b d spj sp vj vs.
         as_object r body = Some b \<and>
         map_of b ''depositAmount'' = Some d \<and> numericString d \<and>
         map_of b ''spec'' = Some spj \<and> as_object r spj = Some sp \<and>
         map_of sp ''validators'' = Some vj \<and> as_array r vj = Some vs \<and>
         length vs = 2 \<and>
         (\<forall>v \<in> set vs. \<exists>vo f. as_object r v = Some vo \<and>
            map_of vo ''fee'' = Some f \<and> numericString f))) \<and>
   (numericString (JStr deposit) \<and> numericString (JStr fee1) \<and> numericString (JStr fee2) \<longrightarrow>
      createChannel plain_rules (channel_body deposit fee1 fee2))"
  using createChannel_shape [of r body] createChannel_body_accepted [of deposit fee1 fee2]
  by blast

theorem createChannel_checks_fields_alone_witness:
  "createChannel plain_rules (channel_body ''1000'' ''0'' ''0'') \<and>
   fees_within_deposit (channel_body ''1000'' ''0'' ''0'') \<and>
   (\<exists>b d. as_object plain_rules (channel_body ''1000'' ''0'' ''0'') = Some b \<and>
      map_of b ''depositAmount'' = Some d \<and> numericString d)"
proof -
  have num: "numericString (JStr ''1000'') \<and> numericString (JStr ''0'') \<and> numericString (JStr ''0'')"
    by (simp add: numericString_def is_digit_def)
  note inst = createChannel_checks_fields_alone
    [of plain_rules "channel_body ''1000'' ''0'' ''0''" "''1000''" "''0''" "''0''"]
  from inst num have ok: "createChannel plain_rules (channel_body ''1000'' ''0'' ''0'')"
    by blast
  with inst have "\<exists>b d. as_object plain_rules (channel_body ''1000'' ''0'' ''0'') = Some b \<and>
      map_of b ''depositAmount'' = Some d \<and> numericString d"
    by blast
  moreover have "fees_within_deposit (channel_body ''1000'' ''0'' ''0'')"
    by (simp add: fees_within_deposit_def declared_fees_def decimal_field_def field_def
        channel_body_def validator_body_def nat_of_decimal_def)
  ultimately show ?thesis using ok by blast
qed

end
